theory Spec2Isabelle
  imports Main "HOL-Library.Sublist"
begin

section \<open>Error taxonomy (types/error.ts)\<close>

text \<open>
  The string constants of \<^verbatim>\<open>ErrorCodes\<close>.
\<close>

definition NOT_FOUND :: string where "NOT_FOUND = ''NOT_FOUND''"
definition VALIDATION_ERROR :: string where "VALIDATION_ERROR = ''VALIDATION_ERROR''"
definition UNAUTHORIZED :: string where "UNAUTHORIZED = ''UNAUTHORIZED''"
definition UNAUTHENTICATED :: string where "UNAUTHENTICATED = ''UNAUTHENTICATED''"
definition CONFLICT :: string where "CONFLICT = ''CONFLICT''"
definition BAD_USER_INPUT :: string where "BAD_USER_INPUT = ''BAD_USER_INPUT''"
definition RATE_LIMIT_EXCEEDED :: string where "RATE_LIMIT_EXCEEDED = ''RATE_LIMIT_EXCEEDED''"
definition INTERNAL_SERVER_ERROR :: string where "INTERNAL_SERVER_ERROR = ''INTERNAL_SERVER_ERROR''"

text \<open>
  What the program throws and catches. The handler receives a value of type
  \<^verbatim>\<open>unknown\<close> and inspects its class, its \<^verbatim>\<open>name\<close> and its
  \<^verbatim>\<open>message\<close>, so a thrown value is one of:
  \<^item> \<open>GraphQLError message code statusCode details\<close>: a \<^verbatim>\<open>GraphQLError\<close> with the
    three entries of its \<^verbatim>\<open>extensions\<close> (each may be absent);
  \<^item> \<open>ServiceError name message code statusCode details\<close>: an instance of
    \<^verbatim>\<open>ServiceError\<close> or of one of its subclasses (the name is the subclass's name);
  \<^item> \<open>JsError name message\<close>: any other \<^verbatim>\<open>Error\<close> instance, among them the
    persistence client's \<^verbatim>\<open>PrismaClientKnownRequestError\<close> and plain
    \<^verbatim>\<open>new Error(message)\<close>, whose name is \<^verbatim>\<open>Error\<close>;
  \<^item> \<open>NonError v\<close>: a thrown value that is not an \<^verbatim>\<open>Error\<close> at all.
\<close>

datatype failure =
    GraphQLError string "string option" "int option" "string option"
  | ServiceError string string string int "string option"
  | JsError string string
  | NonError string

fun is_Error :: "failure \<Rightarrow> bool" where
  "is_Error (NonError v) = False"
| "is_Error e = True"

fun is_ServiceError :: "failure \<Rightarrow> bool" where
  "is_ServiceError (ServiceError n m c s d) = True"
| "is_ServiceError e = False"

fun error_name :: "failure \<Rightarrow> string" where
  "error_name (GraphQLError m c s d) = ''GraphQLError''"
| "error_name (ServiceError n m c s d) = n"
| "error_name (JsError n m) = n"
| "error_name (NonError v) = []"

fun error_message :: "failure \<Rightarrow> string" where
  "error_message (GraphQLError m c s d) = m"
| "error_message (ServiceError n m c s d) = m"
| "error_message (JsError n m) = m"
| "error_message (NonError v) = []"

text \<open>\<^verbatim>\<open>String.prototype.includes\<close>: \<open>sub\<close> occurs in \<open>s\<close> as a contiguous run.\<close>

fun includes_str :: "string \<Rightarrow> string \<Rightarrow> bool" where
  "includes_str [] sub = (sub = [])"
| "includes_str (c # cs) sub = (prefix sub (c # cs) \<or> includes_str cs sub)"

section \<open>The classifier (middleware/error-handler.middleware.ts)\<close>

text \<open>
  \<^verbatim>\<open>ErrorHandler.handle\<close>, branch by branch in the order of the source. A
  persistence error that matches neither message test leaves the second branch and is
  tried by the ones below it, as in the source. The log calls are not modelled.
\<close>

definition handle :: "failure \<Rightarrow> failure" where
  "handle error =
     (case error of
        ServiceError n m c s d \<Rightarrow> GraphQLError m (Some c) (Some s) d
      | _ \<Rightarrow>
        if is_Error error \<and> error_name error = ''PrismaClientKnownRequestError''
           \<and> includes_str (error_message error) ''Unique constraint failed''
        then GraphQLError ''Resource already exists'' (Some CONFLICT) (Some 409) None
        else if is_Error error \<and> error_name error = ''PrismaClientKnownRequestError''
           \<and> includes_str (error_message error) ''Record to update not found''
        then GraphQLError ''Resource not found'' (Some NOT_FOUND) (Some 404) None
        else if is_Error error \<and> error_name error = ''ValidationError''
        then GraphQLError ''Validation failed'' (Some BAD_USER_INPUT) (Some 400)
               (Some (error_message error))
        else GraphQLError ''Internal server error'' (Some INTERNAL_SERVER_ERROR) (Some 500) None)"

text \<open>
  The four recognised shapes, in the words of the specification of the classifier: a
  failure that already carries one of the declared kinds, a uniqueness violation of the
  persistence layer, a missing row on update, and an input-shape validation failure. The
  declared kinds are the eight codes of \<^verbatim>\<open>ErrorCodes\<close>; the failures that carry a
  kind, with a status and details, are the instances of \<^verbatim>\<open>ServiceError\<close>.
\<close>

definition declared_kinds :: "string list" where
  "declared_kinds =
     [NOT_FOUND, VALIDATION_ERROR, UNAUTHENTICATED, UNAUTHORIZED, CONFLICT, BAD_USER_INPUT,
      RATE_LIMIT_EXCEEDED, INTERNAL_SERVER_ERROR]"

fun carries_declared_kind :: "failure \<Rightarrow> bool" where
  "carries_declared_kind (ServiceError n m c s d) = (c \<in> set declared_kinds)"
| "carries_declared_kind e = False"

definition uniqueness_violation :: "failure \<Rightarrow> bool" where
  "uniqueness_violation e =
     (is_Error e \<and> error_name e = ''PrismaClientKnownRequestError''
      \<and> includes_str (error_message e) ''Unique constraint failed'')"

definition missing_row_fault :: "failure \<Rightarrow> bool" where
  "missing_row_fault e =
     (is_Error e \<and> error_name e = ''PrismaClientKnownRequestError''
      \<and> includes_str (error_message e) ''Record to update not found'')"

definition validation_failure :: "failure \<Rightarrow> bool" where
  "validation_failure e = (is_Error e \<and> error_name e = ''ValidationError'')"

definition recognized :: "failure \<Rightarrow> bool" where
  "recognized e =
     (carries_declared_kind e \<or> uniqueness_violation e \<or> missing_row_fault e
      \<or> validation_failure e)"

section \<open>The authorization policy (middleware/auth.middleware.ts)\<close>

text \<open>
  \<^verbatim>\<open>AuthMiddleware.authorize(userId, resourceUserId, role?)\<close>. The role is optional:
  \<open>None\<close> is an omitted or undefined role. The function reads its three arguments and
  nothing else; it returns normally (\<open>Inr ()\<close>) or throws.
\<close>

definition authorize :: "string \<Rightarrow> string \<Rightarrow> string option \<Rightarrow> failure + unit" where
  "authorize userId resourceUserId role =
     (if userId \<noteq> resourceUserId \<and> role \<noteq> Some ''ADMIN''
      then Inl (GraphQLError ''Not authorized'' (Some UNAUTHORIZED) None None)
      else Inr ())"

section \<open>Configuration (config/env.ts)\<close>

text \<open>
  The entries of \<^verbatim>\<open>config\<close> that the credential codec reads. An entry that comes
  straight from the environment may be undefined (\<open>None\<close>); \<^verbatim>\<open>jwtExpiresIn\<close> is
  always a string.
\<close>

record config =
  jwtSecret :: "string option"
  jwtExpiresIn :: string
  jwtIssuer :: "string option"
  jwtAudience :: "string option"

text \<open>
  JavaScript truthiness of an optional string: undefined and the empty string are falsy.
  \<open>or_else x d\<close> is \<^verbatim>\<open>x || d\<close>.
\<close>

definition truthy :: "string option \<Rightarrow> bool" where
  "truthy x = (case x of None \<Rightarrow> False | Some s \<Rightarrow> s \<noteq> [])"

definition or_else :: "string option \<Rightarrow> string \<Rightarrow> string" where
  "or_else x d = (if truthy x then the x else d)"

section \<open>The jsonwebtoken dependency\<close>

text \<open>
  The codec signs and verifies through the \<^verbatim>\<open>jsonwebtoken\<close> package (version 9),
  which is not part of the repository. It is modelled symbolically, as in protocol
  verification: a token is a term that records what was signed and with which key, and a
  signature verifies under a secret exactly when it was made with that secret.

  Payloads, in three layers: \<open>claims_in\<close> is what the application hands to
  \<^verbatim>\<open>generateToken\<close> (\<^verbatim>\<open>Omit<JwtPayload, "iat" | "exp">\<close>); \<open>JwtPayload\<close> adds
  the two timestamps of the interface of that name; \<open>claims\<close> is the object that
  \<^verbatim>\<open>jwt.verify\<close> returns, which also holds the registered claims \<^verbatim>\<open>iss\<close> and
  \<^verbatim>\<open>aud\<close> that \<^verbatim>\<open>jwt.sign\<close> adds for its options \<^verbatim>\<open>issuer\<close> and
  \<^verbatim>\<open>audience\<close> (\<^verbatim>\<open>verifyToken\<close> casts it to \<^verbatim>\<open>JwtPayload\<close>). A field that
  is undefined is dropped by the JSON encoding, so every field is optional.
\<close>

record claims_in =
  userId :: "string option"
  username :: "string option"
  role :: "string option"

record JwtPayload = claims_in +
  iat :: "int option"
  exp :: "int option"

record claims = JwtPayload +
  iss :: "string option"
  aud :: "string option"

text \<open>
  A signed token: the algorithm of its header, its payload, and \<open>jws_mac\<close>, the key its
  signature part was computed with over this header and payload (\<open>None\<close>: the signature
  part was computed over other content or is made up, so that it verifies under no key).
\<close>

record jws =
  jws_alg :: string
  jws_payload :: claims
  jws_mac :: "string option"

text \<open>
  A bearer string is one of:
  \<^item> \<open>Plain s\<close>: a string (possibly empty) that is not three dot-separated parts with a
    readable header and payload;
  \<^item> \<open>Garbled s\<close>: three parts with a readable header of type JWT whose payload is not
    JSON, on which decoding throws a \<^verbatim>\<open>SyntaxError\<close>;
  \<^item> \<open>Jws j\<close>: the compact serialisation of the signed token \<open>j\<close>.
\<close>

datatype token = Plain string | Garbled string | Jws jws

text \<open>
  The exceptions raised inside the codec's \<^verbatim>\<open>try\<close> blocks:
  \<^verbatim>\<open>TokenExpiredError\<close>, the other \<^verbatim>\<open>JsonWebTokenError\<close>s with their message,
  and any other error with its message.
\<close>

datatype jwt_exn = TokenExpiredError | JsonWebTokenError string | OtherError string

record sign_options =
  so_expiresIn :: "string option"
  so_issuer :: "string option"
  so_audience :: "string option"
  so_algorithm :: string

text \<open>
  \<^verbatim>\<open>jwt.sign(payload, secret, options)\<close> at clock time \<open>clock\<close> (seconds), for the
  options object that the codec passes, which always has the four properties. It rejects
  a missing or empty secret, a property whose value is undefined (\<open>None\<close>), and an
  \<^verbatim>\<open>expiresIn\<close> that is empty or not a time span; otherwise it stamps \<^verbatim>\<open>iat\<close>,
  \<^verbatim>\<open>exp\<close>, \<^verbatim>\<open>iss\<close> and \<^verbatim>\<open>aud\<close> and signs. The parser of time spans (the
  \<^verbatim>\<open>ms\<close> package) is the parameter \<open>ms\<close>: \<open>ms s = Some d\<close> when the string
  \<open>s\<close> denotes \<open>d\<close> whole seconds.
\<close>

definition jwt_sign ::
  "(string \<Rightarrow> int option) \<Rightarrow> claims_in \<Rightarrow> string option \<Rightarrow> sign_options \<Rightarrow> int
     \<Rightarrow> jwt_exn + token" where
  "jwt_sign ms payload secret options clock =
     (if \<not> truthy secret then Inl (OtherError ''secretOrPrivateKey must have a value'')
      else if \<not> truthy (so_expiresIn options) then Inl (OtherError ''invalid expiresIn'')
      else if so_audience options = None then Inl (OtherError ''invalid audience'')
      else if so_issuer options = None then Inl (OtherError ''invalid issuer'')
      else case ms (the (so_expiresIn options)) of
             None \<Rightarrow> Inl (OtherError ''invalid expiresIn'')
           | Some d \<Rightarrow>
               Inr (Jws \<lparr> jws_alg = so_algorithm options,
                          jws_payload =
                            \<lparr> userId = userId payload, username = username payload,
                              role = role payload, iat = Some clock, exp = Some (clock + d),
                              iss = so_issuer options, aud = so_audience options \<rparr>,
                          jws_mac = secret \<rparr>))"

record verify_options =
  vo_algorithms :: "string list"
  vo_issuer :: string
  vo_audience :: string

text \<open>
  \<^verbatim>\<open>jwt.verify(token, secret, options)\<close> at clock time \<open>clock\<close>, in the order of the
  library's checks: the shape of the string, the presence of a secret, the algorithm, the
  signature, the expiry (\<^verbatim>\<open>clock >= exp\<close>), the audience, the issuer. The first
  check that fails decides the exception. The not-before claim, which the codec never
  issues, is left out.
\<close>

fun jwt_verify :: "token \<Rightarrow> string option \<Rightarrow> verify_options \<Rightarrow> int \<Rightarrow> jwt_exn + claims" where
  "jwt_verify (Plain s) secret options clock =
     Inl (JsonWebTokenError (if s = [] then ''jwt must be provided'' else ''jwt malformed''))"
| "jwt_verify (Garbled s) secret options clock = Inl (OtherError ''SyntaxError'')"
| "jwt_verify (Jws j) secret options clock =
     (if \<not> truthy secret
      then Inl (JsonWebTokenError ''secret or public key must be provided'')
      else if jws_alg j \<notin> set (vo_algorithms options)
      then Inl (JsonWebTokenError ''invalid algorithm'')
      else if jws_mac j \<noteq> secret
      then Inl (JsonWebTokenError ''invalid signature'')
      else if (case exp (jws_payload j) of None \<Rightarrow> False | Some e \<Rightarrow> clock \<ge> e)
      then Inl TokenExpiredError
      else if aud (jws_payload j) \<noteq> Some (vo_audience options)
      then Inl (JsonWebTokenError ''jwt audience invalid'')
      else if iss (jws_payload j) \<noteq> Some (vo_issuer options)
      then Inl (JsonWebTokenError ''jwt issuer invalid'')
      else Inr (jws_payload j))"

section \<open>The credential codec (utils/jwt.ts, class JwtUtils)\<close>

text \<open>
  \<^verbatim>\<open>TokenOptions\<close>. Each property is absent (\<open>None\<close>), present with the value
  undefined (\<open>Some None\<close>) or present with a string (\<open>Some (Some s)\<close>): the object
  spread of \<^verbatim>\<open>generateToken\<close> tells the first two apart.
\<close>

record TokenOptions =
  expiresIn :: "string option option"
  issuer :: "string option option"
  audience :: "string option option"

text \<open>\<open>spread d x\<close> is the property of \<^verbatim>\<open>{ ...defaults, ...options }\<close>.\<close>

definition spread :: "string \<Rightarrow> string option option \<Rightarrow> string option" where
  "spread d x = (case x of None \<Rightarrow> Some d | Some v \<Rightarrow> v)"

definition no_options :: TokenOptions where
  "no_options = \<lparr> expiresIn = None, issuer = None, audience = None \<rparr>"

text \<open>\<^verbatim>\<open>JwtUtils.defaultOptions\<close>, computed from the configuration.\<close>

definition default_expiresIn :: "config \<Rightarrow> string" where
  "default_expiresIn cfg = or_else (Some (jwtExpiresIn cfg)) ''7d''"

definition default_issuer :: "config \<Rightarrow> string" where
  "default_issuer cfg = or_else (jwtIssuer cfg) ''your-app-name''"

definition default_audience :: "config \<Rightarrow> string" where
  "default_audience cfg = or_else (jwtAudience cfg) ''your-app-client''"

text \<open>
  \<^verbatim>\<open>generateToken(payload, options)\<close>: every property present in the options,
  even with the value undefined, overrides the default
  (\<^verbatim>\<open>{ ...defaultOptions, ...options }\<close>); whatever \<^verbatim>\<open>jwt.sign\<close> throws is caught
  and replaced by one fixed error.
\<close>

definition generateToken ::
  "(string \<Rightarrow> int option) \<Rightarrow> config \<Rightarrow> int \<Rightarrow> claims_in \<Rightarrow> TokenOptions
     \<Rightarrow> failure + token" where
  "generateToken ms cfg clock payload options =
     (case jwt_sign ms payload (jwtSecret cfg)
             \<lparr> so_expiresIn = spread (default_expiresIn cfg) (expiresIn options),
               so_issuer = spread (default_issuer cfg) (issuer options),
               so_audience = spread (default_audience cfg) (audience options),
               so_algorithm = ''HS256'' \<rparr> clock of
        Inr t \<Rightarrow> Inr t
      | Inl e \<Rightarrow> Inl (JsError ''Error'' ''Failed to generate authentication token''))"

text \<open>
  \<^verbatim>\<open>verifyToken(token)\<close>. The body of the \<^verbatim>\<open>try\<close> block first, then the
  \<^verbatim>\<open>catch\<close> clause, which tests for \<^verbatim>\<open>TokenExpiredError\<close> before
  \<^verbatim>\<open>JsonWebTokenError\<close>. The empty string is the only falsy token.
\<close>

definition verifyToken_try :: "config \<Rightarrow> int \<Rightarrow> token \<Rightarrow> jwt_exn + claims" where
  "verifyToken_try cfg clock t =
     (if t = Plain [] then Inl (OtherError ''No token provided'')
      else jwt_verify t (jwtSecret cfg)
             \<lparr> vo_algorithms = [''HS256''], vo_issuer = default_issuer cfg,
               vo_audience = default_audience cfg \<rparr> clock)"

definition verifyToken :: "config \<Rightarrow> int \<Rightarrow> token \<Rightarrow> failure + claims" where
  "verifyToken cfg clock t =
     (case verifyToken_try cfg clock t of
        Inr payload \<Rightarrow> Inr payload
      | Inl TokenExpiredError \<Rightarrow> Inl (JsError ''Error'' ''Authentication token expired'')
      | Inl (JsonWebTokenError m) \<Rightarrow> Inl (JsError ''Error'' ''Invalid authentication token'')
      | Inl (OtherError m) \<Rightarrow> Inl (JsError ''Error'' ''Authentication verification failed''))"

text \<open>
  \<^verbatim>\<open>refreshToken(token, newExpiry?)\<close>: verification and issuance inside one
  \<^verbatim>\<open>try\<close>; the \<^verbatim>\<open>catch\<close> clause logs the error and throws a fixed one.
\<close>

definition refreshToken ::
  "(string \<Rightarrow> int option) \<Rightarrow> config \<Rightarrow> int \<Rightarrow> token \<Rightarrow> string option \<Rightarrow> failure + token" where
  "refreshToken ms cfg clock t newExpiry =
     (case verifyToken cfg clock t of
        Inl e \<Rightarrow> Inl (JsError ''Error'' ''Failed to refresh token'')
      | Inr payload \<Rightarrow>
          (case generateToken ms cfg clock
                  \<lparr> userId = userId payload, username = username payload,
                    role = role payload \<rparr>
                  \<lparr> expiresIn = Some (Some (or_else newExpiry (default_expiresIn cfg))),
                    issuer = None, audience = None \<rparr> of
             Inl e \<Rightarrow> Inl (JsError ''Error'' ''Failed to refresh token'')
           | Inr t' \<Rightarrow> Inr t'))"

section \<open>The store (prisma/schema.prisma)\<close>

text \<open>
  One record per model of the schema, one list of rows per table. Identifiers are strings
  and time stamps are seconds. \<open>User\<close> holds the four columns of the interface of that
  name in types/context.ts; a row of the user table extends it with the other columns.
\<close>

record User =
  user_id :: string
  user_username :: string
  user_email :: string
  user_role :: string

record user_row = User +
  user_password :: string
  user_bio :: "string option"
  user_profilePicture :: "string option"

record post =
  post_id :: string
  post_userId :: string
  post_mediaFile :: string
  post_caption :: "string option"

record comment =
  comment_id :: string
  comment_userId :: string
  comment_postId :: string
  comment_content :: string
  comment_parentId :: "string option"
  comment_createdAt :: int
  comment_updatedAt :: int

record like =
  like_id :: string
  like_userId :: string
  like_postId :: string
  like_createdAt :: int

record rating =
  rating_id :: string
  rating_userId :: string
  rating_postId :: string
  rating_value :: int
  rating_createdAt :: int
  rating_updatedAt :: int

record db =
  users :: "user_row list"
  posts :: "post list"
  comments :: "comment list"
  likes :: "like list"
  ratings :: "rating list"

text \<open>
  The calls of the persistence client that the services make. A call that the database
  rejects throws a \<^verbatim>\<open>PrismaClientKnownRequestError\<close>; a failed call leaves the store
  as it was. The schema's constraints are checked on every insert: the primary key, the
  \<^verbatim>\<open>@@unique([userId, postId])\<close> of likes and ratings, and the foreign keys of the
  relations. The identifier of a new row (\<^verbatim>\<open>@default(uuid())\<close>) and the time of the
  call (\<^verbatim>\<open>@default(now())\<close>, \<^verbatim>\<open>@updatedAt\<close>) are parameters.
\<close>

definition prisma_error :: "string \<Rightarrow> failure" where
  "prisma_error m = JsError ''PrismaClientKnownRequestError'' m"

definition user_findUnique :: "db \<Rightarrow> string \<Rightarrow> user_row option" where
  "user_findUnique d i = find (\<lambda>u. user_id u = i) (users d)"

definition post_findUnique :: "db \<Rightarrow> string \<Rightarrow> post option" where
  "post_findUnique d i = find (\<lambda>p. post_id p = i) (posts d)"

definition comment_findUnique :: "db \<Rightarrow> string \<Rightarrow> comment option" where
  "comment_findUnique d i = find (\<lambda>c. comment_id c = i) (comments d)"

definition like_findFirst :: "db \<Rightarrow> string \<Rightarrow> string \<Rightarrow> like option" where
  "like_findFirst d uid pid = find (\<lambda>l. like_userId l = uid \<and> like_postId l = pid) (likes d)"

definition rating_findFirst :: "db \<Rightarrow> string \<Rightarrow> string \<Rightarrow> rating option" where
  "rating_findFirst d uid pid =
     find (\<lambda>r. rating_userId r = uid \<and> rating_postId r = pid) (ratings d)"

definition like_create :: "db \<Rightarrow> string \<Rightarrow> int \<Rightarrow> string \<Rightarrow> string \<Rightarrow> failure + like \<times> db" where
  "like_create d uuid now uid pid =
     (if uuid \<in> set (map like_id (likes d))
      then Inl (prisma_error ''Unique constraint failed on the constraint: PRIMARY'')
      else if like_findFirst d uid pid \<noteq> None
      then Inl (prisma_error ''Unique constraint failed on the constraint: Like_userId_postId_key'')
      else if user_findUnique d uid = None
      then Inl (prisma_error ''Foreign key constraint failed on the field: userId'')
      else if post_findUnique d pid = None
      then Inl (prisma_error ''Foreign key constraint failed on the field: postId'')
      else let l = \<lparr> like_id = uuid, like_userId = uid, like_postId = pid,
                       like_createdAt = now \<rparr>
           in Inr (l, d \<lparr> likes := likes d @ [l] \<rparr>))"

definition rating_create ::
  "db \<Rightarrow> string \<Rightarrow> int \<Rightarrow> string \<Rightarrow> string \<Rightarrow> int \<Rightarrow> failure + rating \<times> db" where
  "rating_create d uuid now uid pid v =
     (if uuid \<in> set (map rating_id (ratings d))
      then Inl (prisma_error ''Unique constraint failed on the constraint: PRIMARY'')
      else if rating_findFirst d uid pid \<noteq> None
      then Inl (prisma_error
                  ''Unique constraint failed on the constraint: Rating_userId_postId_key'')
      else if user_findUnique d uid = None
      then Inl (prisma_error ''Foreign key constraint failed on the field: userId'')
      else if post_findUnique d pid = None
      then Inl (prisma_error ''Foreign key constraint failed on the field: postId'')
      else let r = \<lparr> rating_id = uuid, rating_userId = uid, rating_postId = pid,
                       rating_value = v, rating_createdAt = now, rating_updatedAt = now \<rparr>
           in Inr (r, d \<lparr> ratings := ratings d @ [r] \<rparr>))"

text \<open>\<^verbatim>\<open>rating.update({ where: { id }, data: { value } })\<close>.\<close>

definition set_value :: "int \<Rightarrow> int \<Rightarrow> rating \<Rightarrow> rating" where
  "set_value v now r = r \<lparr> rating_value := v, rating_updatedAt := now \<rparr>"

definition rating_update :: "db \<Rightarrow> int \<Rightarrow> string \<Rightarrow> int \<Rightarrow> failure + rating \<times> db" where
  "rating_update d now i v =
     (case find (\<lambda>r. rating_id r = i) (ratings d) of
        None \<Rightarrow> Inl (prisma_error ''Record to update not found.'')
      | Some r \<Rightarrow>
          Inr (set_value v now r,
               d \<lparr> ratings := map (\<lambda>x. if rating_id x = i then set_value v now x else x)
                                 (ratings d) \<rparr>))"

definition comment_create ::
  "db \<Rightarrow> string \<Rightarrow> int \<Rightarrow> string \<Rightarrow> string \<Rightarrow> string \<Rightarrow> string option
     \<Rightarrow> failure + comment \<times> db" where
  "comment_create d uuid now uid pid content parentId =
     (if uuid \<in> set (map comment_id (comments d))
      then Inl (prisma_error ''Unique constraint failed on the constraint: PRIMARY'')
      else if user_findUnique d uid = None
      then Inl (prisma_error ''Foreign key constraint failed on the field: userId'')
      else if post_findUnique d pid = None
      then Inl (prisma_error ''Foreign key constraint failed on the field: postId'')
      else if (case parentId of None \<Rightarrow> False | Some p \<Rightarrow> comment_findUnique d p = None)
      then Inl (prisma_error ''Foreign key constraint failed on the field: parentId'')
      else let c = \<lparr> comment_id = uuid, comment_userId = uid, comment_postId = pid,
                       comment_content = content, comment_parentId = parentId,
                       comment_createdAt = now, comment_updatedAt = now \<rparr>
           in Inr (c, d \<lparr> comments := comments d @ [c] \<rparr>))"

text \<open>
  \<^verbatim>\<open>comment.delete({ where: { id } })\<close>. The relation from a reply to its parent is
  declared \<^verbatim>\<open>onDelete: SetNull\<close>: the database removes the row and sets the
  \<^verbatim>\<open>parentId\<close> of every row that referenced it to null.
\<close>

definition orphan :: "string \<Rightarrow> comment \<Rightarrow> comment" where
  "orphan i c = (if comment_parentId c = Some i then c \<lparr> comment_parentId := None \<rparr> else c)"

definition comment_delete :: "db \<Rightarrow> string \<Rightarrow> failure + db" where
  "comment_delete d i =
     (if comment_findUnique d i = None
      then Inl (prisma_error ''Record to delete does not exist.'')
      else Inr (d \<lparr> comments := map (orphan i) (filter (\<lambda>c. comment_id c \<noteq> i) (comments d)) \<rparr>))"

section \<open>The services (graphql/services)\<close>

text \<open>
  Each service method takes the store and returns either the thrown failure or its
  result with the store after the call. Log calls are not modelled.
\<close>

definition not_found :: "string \<Rightarrow> failure" where
  "not_found m = GraphQLError m (Some NOT_FOUND) None None"

definition bad_user_input :: "string \<Rightarrow> failure" where
  "bad_user_input m = GraphQLError m (Some BAD_USER_INPUT) None None"

text \<open>\<^verbatim>\<open>LikeService.likePost(postId, userId)\<close>.\<close>

definition likePost :: "db \<Rightarrow> string \<Rightarrow> int \<Rightarrow> string \<Rightarrow> string \<Rightarrow> failure + like \<times> db" where
  "likePost d uuid now postId uid =
     (case post_findUnique d postId of
        None \<Rightarrow> Inl (not_found ''Post not found'')
      | Some p \<Rightarrow>
          (case like_findFirst d uid postId of
             Some existingLike \<Rightarrow> Inr (existingLike, d)
           | None \<Rightarrow> like_create d uuid now uid postId))"

text \<open>\<^verbatim>\<open>RatingService.ratePost(postId, userId, value)\<close>; the value is a GraphQL \<^verbatim>\<open>Int\<close>.\<close>

definition ratePost ::
  "db \<Rightarrow> string \<Rightarrow> int \<Rightarrow> string \<Rightarrow> string \<Rightarrow> int \<Rightarrow> failure + rating \<times> db" where
  "ratePost d uuid now postId uid v =
     (if v < 1 \<or> v > 5 then Inl (bad_user_input ''Rating must be between 1 and 5'')
      else case post_findUnique d postId of
             None \<Rightarrow> Inl (not_found ''Post not found'')
           | Some p \<Rightarrow>
               (case rating_findFirst d uid postId of
                  Some existingRating \<Rightarrow> rating_update d now (rating_id existingRating) v
                | None \<Rightarrow> rating_create d uuid now uid postId v))"

text \<open>
  \<^verbatim>\<open>CommentService.createComment(input, userId)\<close>. The parent is looked up under
  \<^verbatim>\<open>if (parentId)\<close>, so only for a parent id that is truthy: present and not the empty
  string. The row is created with the parent id as it was given.
\<close>

record CreateCommentInput =
  input_postId :: string
  input_content :: string
  input_parentId :: "string option"

definition check_parent :: "db \<Rightarrow> string \<Rightarrow> string option \<Rightarrow> failure + unit" where
  "check_parent d postId parentId =
     (if truthy parentId
      then (case comment_findUnique d (the parentId) of
              None \<Rightarrow> Inl (not_found ''Parent comment not found'')
            | Some parentComment \<Rightarrow>
                if comment_postId parentComment \<noteq> postId
                then Inl (bad_user_input ''Parent comment does not belong to this post'')
                else Inr ())
      else Inr ())"

definition createComment ::
  "db \<Rightarrow> string \<Rightarrow> int \<Rightarrow> CreateCommentInput \<Rightarrow> string \<Rightarrow> failure + comment \<times> db" where
  "createComment d uuid now input uid =
     (case post_findUnique d (input_postId input) of
        None \<Rightarrow> Inl (not_found ''Post not found'')
      | Some p \<Rightarrow>
          (case check_parent d (input_postId input) (input_parentId input) of
             Inl e \<Rightarrow> Inl e
           | Inr u \<Rightarrow>
               comment_create d uuid now uid (input_postId input) (input_content input)
                 (input_parentId input)))"

text \<open>\<^verbatim>\<open>CommentService.deleteComment(id, userId, userRole)\<close>.\<close>

definition deleteComment :: "db \<Rightarrow> string \<Rightarrow> string \<Rightarrow> string \<Rightarrow> failure + bool \<times> db" where
  "deleteComment d i uid userRole =
     (case comment_findUnique d i of
        None \<Rightarrow> Inl (not_found ''Comment not found'')
      | Some c \<Rightarrow>
          (case authorize uid (comment_userId c) (Some userRole) of
             Inl e \<Rightarrow> Inl e
           | Inr u \<Rightarrow>
               (case comment_delete d i of
                  Inl e \<Rightarrow> Inl e
                | Inr d' \<Rightarrow> Inr (True, d'))))"

section \<open>The request context (index.ts)\<close>

text \<open>
  What the context function reads of a request: the \<^verbatim>\<open>Authorization\<close> header, given
  as the list of its parts between spaces (the result of \<^verbatim>\<open>split(" ")\<close>), and the
  \<^verbatim>\<open>x-request-id\<close> header. \<open>None\<close> is a header that was not sent.
\<close>

record request =
  authorization :: "token list option"
  x_request_id :: "string option"

record Context =
  ctx_user :: "User option"
  ctx_requestId :: string

text \<open>\<^verbatim>\<open>req.headers.authorization?.split(" ")[1] || ""\<close>.\<close>

definition bearer :: "request \<Rightarrow> token" where
  "bearer req =
     (case authorization req of
        None \<Rightarrow> Plain []
      | Some parts \<Rightarrow> if 1 < length parts then parts ! 1 else Plain [])"

text \<open>
  The body of the \<^verbatim>\<open>try\<close> block: verify the token, require a truthy
  \<^verbatim>\<open>userId\<close>, read the user with the four selected columns.
\<close>

definition resolve_user :: "config \<Rightarrow> db \<Rightarrow> int \<Rightarrow> token \<Rightarrow> failure + User option" where
  "resolve_user cfg d clock t =
     (case verifyToken cfg clock t of
        Inl e \<Rightarrow> Inl e
      | Inr decoded \<Rightarrow>
          if \<not> truthy (userId decoded) then Inl (JsError ''Error'' ''Invalid token payload'')
          else Inr (map_option User.truncate (user_findUnique d (the (userId decoded)))))"

text \<open>
  The context function. The \<^verbatim>\<open>catch\<close> clause only logs, so a failure inside the
  \<^verbatim>\<open>try\<close> block leaves \<^verbatim>\<open>user\<close> at null. \<open>uuid\<close> is the value of
  \<^verbatim>\<open>crypto.randomUUID()\<close>.
\<close>

definition build_context :: "config \<Rightarrow> db \<Rightarrow> int \<Rightarrow> string \<Rightarrow> request \<Rightarrow> Context" where
  "build_context cfg d clock uuid req =
     \<lparr> ctx_user =
         (if bearer req \<noteq> Plain []
          then (case resolve_user cfg d clock (bearer req) of Inl e \<Rightarrow> None | Inr u \<Rightarrow> u)
          else None),
       ctx_requestId = or_else (x_request_id req) uuid \<rparr>"

section \<open>Rows stored for a pair\<close>

text \<open>
  The likes and the ratings that the store holds for a user and a post. The schema's
  \<^verbatim>\<open>@@unique([userId, postId])\<close> keeps each of these lists at one row at most.
\<close>

definition likes_of :: "db \<Rightarrow> string \<Rightarrow> string \<Rightarrow> like list" where
  "likes_of d uid pid = filter (\<lambda>l. like_userId l = uid \<and> like_postId l = pid) (likes d)"

definition ratings_of :: "db \<Rightarrow> string \<Rightarrow> string \<Rightarrow> rating list" where
  "ratings_of d uid pid =
     filter (\<lambda>r. rating_userId r = uid \<and> rating_postId r = pid) (ratings d)"

section \<open>Sample data\<close>

text \<open>
  A configuration with a secret and the default lifetime, a parser of the two default time
  spans, a token issued at time 1000 for one hour, the same token with a signature made
  under another key, the same token without a subject id, a service error whose code is
  not a declared kind, a store without the token's user, a request that carries the token,
  a store with two users and a post, and a thread of four comments on that post.
\<close>

definition cfg0 :: config where
  "cfg0 = \<lparr> jwtSecret = Some ''s3cret'', jwtExpiresIn = ''1hr'', jwtIssuer = None,
            jwtAudience = Some ''social-media-app'' \<rparr>"

definition ms0 :: "string \<Rightarrow> int option" where
  "ms0 s = (if s = ''1hr'' then Some 3600 else if s = ''7d'' then Some 604800 else None)"

definition claims0 :: claims where
  "claims0 = \<lparr> userId = Some ''u1'', username = Some ''ann'', role = Some ''USER'',
               iat = Some 1000, exp = Some 4600,
               iss = Some ''your-app-name'', aud = Some ''social-media-app'' \<rparr>"

definition signed0 :: jws where
  "signed0 = \<lparr> jws_alg = ''HS256'', jws_payload = claims0, jws_mac = Some ''s3cret'' \<rparr>"

definition forged0 :: jws where
  "forged0 = \<lparr> jws_alg = ''HS256'', jws_payload = claims0, jws_mac = Some ''guess'' \<rparr>"


definition teapot :: failure where
  "teapot = ServiceError ''ServiceError'' ''replica db-7 refused the write'' ''TEAPOT'' 418
              (Some ''row 42 of table ledger'')"

definition ann :: user_row where
  "ann = \<lparr> user_id = ''u1'', user_username = ''ann'', user_email = ''ann@example.com'',
           user_role = ''USER'', user_password = ''hash1'', user_bio = None,
           user_profilePicture = None \<rparr>"

definition bob :: user_row where
  "bob = \<lparr> user_id = ''u2'', user_username = ''bob'', user_email = ''bob@example.com'',
           user_role = ''USER'', user_password = ''hash2'', user_bio = None,
           user_profilePicture = None \<rparr>"

definition post0 :: post where
  "post0 = \<lparr> post_id = ''p1'', post_userId = ''u2'', post_mediaFile = ''cat.jpg'',
             post_caption = None \<rparr>"

definition db_without_ann :: db where
  "db_without_ann = \<lparr> users = [bob], posts = [post0], comments = [], likes = [], ratings = [] \<rparr>"

definition req0 :: request where
  "req0 = \<lparr> authorization = Some [Plain ''Bearer'', Jws signed0], x_request_id = None \<rparr>"

definition db1 :: db where
  "db1 = \<lparr> users = [ann, bob], posts = [post0], comments = [], likes = [], ratings = [] \<rparr>"

definition like1 :: like where
  "like1 = \<lparr> like_id = ''l-1'', like_userId = ''u1'', like_postId = ''p1'', like_createdAt = 10 \<rparr>"

definition rating3 :: rating where
  "rating3 = \<lparr> rating_id = ''r-1'', rating_userId = ''u1'', rating_postId = ''p1'',
                rating_value = 3, rating_createdAt = 10, rating_updatedAt = 10 \<rparr>"

definition rating5 :: rating where
  "rating5 = \<lparr> rating_id = ''r-1'', rating_userId = ''u1'', rating_postId = ''p1'',
                rating_value = 5, rating_createdAt = 10, rating_updatedAt = 20 \<rparr>"

definition c1 :: comment where
  "c1 = \<lparr> comment_id = ''c1'', comment_userId = ''u1'', comment_postId = ''p1'',
           comment_content = ''first'', comment_parentId = None,
           comment_createdAt = 10, comment_updatedAt = 10 \<rparr>"

definition c2 :: comment where
  "c2 = \<lparr> comment_id = ''c2'', comment_userId = ''u2'', comment_postId = ''p1'',
           comment_content = ''reply'', comment_parentId = Some ''c1'',
           comment_createdAt = 20, comment_updatedAt = 20 \<rparr>"

definition c3 :: comment where
  "c3 = \<lparr> comment_id = ''c3'', comment_userId = ''u2'', comment_postId = ''p1'',
           comment_content = ''other'', comment_parentId = None,
           comment_createdAt = 30, comment_updatedAt = 30 \<rparr>"

definition c4 :: comment where
  "c4 = \<lparr> comment_id = ''c4'', comment_userId = ''u1'', comment_postId = ''p1'',
           comment_content = ''reply to the reply'', comment_parentId = Some ''c2'',
           comment_createdAt = 40, comment_updatedAt = 40 \<rparr>"

definition db_thread :: db where
  "db_thread = \<lparr> users = [ann, bob], posts = [post0], comments = [c1, c2, c3, c4], likes = [],
                 ratings = [] \<rparr>"

section \<open>The authorization decision\<close>

text \<open>
  C1. For every caller id \<open>u\<close>, owner id \<open>v\<close> and role \<open>r\<close> (possibly omitted),
  \<open>authorize u v r\<close> returns normally exactly when \<open>u = v\<close> or the role is
  \<open>ADMIN\<close>, and in every other case throws the error with code \<open>UNAUTHORIZED\<close>. The
  outcome is a function of the three arguments alone: the method reads and writes nothing
  else.
\<close>

theorem authorize_decision:
  "authorize u v r =
     (if u = v \<or> r = Some ''ADMIN'' then Inr ()
      else Inl (GraphQLError ''Not authorized'' (Some ''UNAUTHORIZED'') None None))
   \<and> ((\<exists>x. authorize u v r = Inr x) \<longleftrightarrow> (u = v \<or> r = Some ''ADMIN''))"
  by (simp add: authorize_def UNAUTHORIZED_def)

theorem authorize_decision_witness:
  "authorize ''alice'' ''alice'' (Some ''USER'') = Inr ()
   \<and> authorize ''bob'' ''alice'' (Some ''USER'')
       = Inl (GraphQLError ''Not authorized'' (Some ''UNAUTHORIZED'') None None)
   \<and> authorize ''bob'' ''alice'' None
       = Inl (GraphQLError ''Not authorized'' (Some ''UNAUTHORIZED'') None None)
   \<and> authorize ''bob'' ''alice'' (Some ''ADMIN'') = Inr ()"
  using authorize_decision [of "''alice''" "''alice''" "Some ''USER''"]
        authorize_decision [of "''bob''" "''alice''" "Some ''USER''"]
        authorize_decision [of "''bob''" "''alice''" "None"]
        authorize_decision [of "''bob''" "''alice''" "Some ''ADMIN''"]
  by simp

section \<open>The fallback of the classifier\<close>

text \<open>
  C5, as the specification states it, fails: a service error whose code is none of the
  declared kinds is of none of the four recognised shapes, and the classifier hands its
  message, code, status and details to the caller, because its first test is on the class
  alone.
\<close>

theorem handle_undeclared_kind_counterexample:
  "\<not> recognized teapot
   \<and> handle teapot = GraphQLError ''replica db-7 refused the write'' (Some ''TEAPOT'') (Some 418)
                       (Some ''row 42 of table ledger'')
   \<and> handle teapot \<noteq> GraphQLError ''Internal server error'' (Some ''INTERNAL_SERVER_ERROR'')
                         (Some 500) None"
  by (simp add: teapot_def recognized_def uniqueness_violation_def missing_row_fault_def
        validation_failure_def handle_def declared_kinds_def NOT_FOUND_def VALIDATION_ERROR_def
        UNAUTHENTICATED_def UNAUTHORIZED_def CONFLICT_def BAD_USER_INPUT_def
        RATE_LIMIT_EXCEEDED_def INTERNAL_SERVER_ERROR_def)

text \<open>
  C5, amended. Of the failures of none of the four recognised shapes, a service error
  (whose code is then not a declared kind) is passed through with its own message, code,
  status and details; every other one is classified as the internal error with the fixed
  message, status 500 and no details, the same value for any two of them, so that nothing
  of the original failure appears in it.
\<close>

theorem handle_fallback_uniform:
  assumes "\<not> recognized e1" and "\<not> recognized e2"
  shows "(\<forall>n m c s d. e1 = ServiceError n m c s d \<longrightarrow>
            c \<notin> set declared_kinds \<and> handle e1 = GraphQLError m (Some c) (Some s) d)
       \<and> (\<not> is_ServiceError e1 \<longrightarrow>
            handle e1 = GraphQLError ''Internal server error'' (Some ''INTERNAL_SERVER_ERROR'')
                          (Some 500) None)
       \<and> (\<not> is_ServiceError e1 \<and> \<not> is_ServiceError e2 \<longrightarrow> handle e2 = handle e1)"
proof -
  have through: "c \<notin> set declared_kinds \<and> handle e = GraphQLError m (Some c) (Some s) d"
    if "\<not> recognized e" and "e = ServiceError n m c s d" for e n m c s d
    using that by (simp add: recognized_def handle_def)
  have fallback: "handle e = GraphQLError ''Internal server error''
                    (Some ''INTERNAL_SERVER_ERROR'') (Some 500) None"
    if "\<not> recognized e" and "\<not> is_ServiceError e" for e
    using that
    by (cases e)
       (simp_all add: recognized_def uniqueness_violation_def missing_row_fault_def
          validation_failure_def handle_def INTERNAL_SERVER_ERROR_def)
  from through [OF assms(1)] fallback [OF assms(1)] fallback [OF assms(2)]
  show ?thesis by simp
qed

theorem handle_fallback_uniform_witness:
  "\<not> recognized (JsError ''TypeError'' ''Cannot read properties of undefined (reading id)'')
   \<and> \<not> recognized (JsError ''PrismaClientKnownRequestError''
                      ''Foreign key constraint failed on the field: parentId'')
   \<and> \<not> recognized teapot
   \<and> handle (JsError ''TypeError'' ''Cannot read properties of undefined (reading id)'')
       = GraphQLError ''Internal server error'' (Some ''INTERNAL_SERVER_ERROR'') (Some 500) None
   \<and> handle (JsError ''PrismaClientKnownRequestError''
                ''Foreign key constraint failed on the field: parentId'')
       = handle (JsError ''TypeError'' ''Cannot read properties of undefined (reading id)'')
   \<and> handle teapot = GraphQLError ''replica db-7 refused the write'' (Some ''TEAPOT'') (Some 418)
                       (Some ''row 42 of table ledger'')"
proof -
  have a: "\<not> recognized (JsError ''TypeError'' ''Cannot read properties of undefined (reading id)'')"
    by (simp add: recognized_def uniqueness_violation_def missing_row_fault_def
          validation_failure_def)
  have b: "\<not> recognized (JsError ''PrismaClientKnownRequestError''
                      ''Foreign key constraint failed on the field: parentId'')"
    by (simp add: recognized_def uniqueness_violation_def missing_row_fault_def
          validation_failure_def)
  have c: "\<not> recognized teapot"
    by (simp add: teapot_def recognized_def uniqueness_violation_def missing_row_fault_def
          validation_failure_def declared_kinds_def NOT_FOUND_def VALIDATION_ERROR_def
          UNAUTHENTICATED_def UNAUTHORIZED_def CONFLICT_def BAD_USER_INPUT_def
          RATE_LIMIT_EXCEEDED_def INTERNAL_SERVER_ERROR_def)
  have t: "teapot = ServiceError ''ServiceError'' ''replica db-7 refused the write'' ''TEAPOT'' 418
              (Some ''row 42 of table ledger'')"
    by (simp add: teapot_def)
  from handle_fallback_uniform [OF a b] handle_fallback_uniform [OF c a] a b c t
  show ?thesis by simp
qed

section \<open>The credential codec\<close>

lemma or_else_nonempty: "d \<noteq> [] \<Longrightarrow> or_else x d \<noteq> []"
  by (cases x) (simp_all add: or_else_def truthy_def)

lemma default_expiresIn_nonempty: "default_expiresIn cfg \<noteq> []"
  by (simp add: default_expiresIn_def or_else_nonempty)

text \<open>
  An option that is present with the value undefined replaces the default, and signing
  then fails.
\<close>

lemma generateToken_undefined_option:
  "issuer options = Some None \<or> audience options = Some None \<or> expiresIn options = Some None
   \<Longrightarrow> generateToken ms cfg now p options
         = Inl (JsError ''Error'' ''Failed to generate authentication token'')"
  by (auto simp add: generateToken_def jwt_sign_def spread_def truthy_def split: option.splits)

lemma cfg0_defaults:
  "default_issuer cfg0 = ''your-app-name''" "default_audience cfg0 = ''social-media-app''"
  "default_expiresIn cfg0 = ''1hr''" "jwtSecret cfg0 = Some ''s3cret''"
  by (simp_all add: cfg0_def default_issuer_def default_audience_def default_expiresIn_def
        or_else_def truthy_def)

text \<open>
  C2. With a secret configured and a default lifetime of \<open>d\<close> seconds, a token issued
  at time \<open>now\<close> from any payload with the default options verifies at every time \<open>t\<close>
  from \<open>now\<close> up to its expiry, and the verified payload has the subject id, the
  username and the role of the payload it was issued from; what issuance added is the two
  time stamps \<open>iat = now\<close> and \<open>exp = now + d\<close>, with the configured issuer and
  audience that every credential carries.
\<close>

theorem verify_generate_roundtrip:
  assumes "jwtSecret cfg = Some s" and "s \<noteq> []"
    and "ms (default_expiresIn cfg) = Some d"
    and "now \<le> t" and "t < now + d"
  shows "case generateToken ms cfg now p no_options of
           Inl e \<Rightarrow> False
         | Inr tok \<Rightarrow>
             verifyToken cfg t tok =
               Inr \<lparr> userId = userId p, username = username p, role = role p,
                     iat = Some now, exp = Some (now + d),
                     iss = Some (default_issuer cfg), aud = Some (default_audience cfg) \<rparr>"
  using assms default_expiresIn_nonempty [of cfg]
  by (simp add: generateToken_def jwt_sign_def no_options_def spread_def truthy_def
        verifyToken_def verifyToken_try_def)

theorem verify_generate_roundtrip_witness:
  "jwtSecret cfg0 = Some ''s3cret'' \<and> ''s3cret'' \<noteq> [] \<and> ms0 (default_expiresIn cfg0) = Some 3600
   \<and> (1000::int) \<le> 1000 \<and> (1000::int) < 1000 + 3600
   \<and> (case generateToken ms0 cfg0 1000
              \<lparr> userId = Some ''u1'', username = Some ''ann'', role = Some ''USER'' \<rparr> no_options of
         Inl e \<Rightarrow> False
       | Inr tok \<Rightarrow> verifyToken cfg0 1000 tok = Inr claims0)"
proof -
  have h: "jwtSecret cfg0 = Some ''s3cret''" "ms0 (default_expiresIn cfg0) = Some 3600"
    by (simp_all add: cfg0_defaults ms0_def)
  from verify_generate_roundtrip [of cfg0 "''s3cret''" ms0 3600 1000 1000
      "\<lparr> userId = Some ''u1'', username = Some ''ann'', role = Some ''USER'' \<rparr>"]
  show ?thesis using h
    by (simp add: cfg0_defaults claims0_def generateToken_def jwt_sign_def no_options_def
          spread_def truthy_def)
qed

text \<open>
  C3, as the specification states it, fails: a token whose expiry is in the past and whose
  signature was made under another key is rejected as invalid, not as expired, because the
  signature is checked before the expiry.
\<close>

theorem verifyToken_expired_forged_counterexample:
  "exp (jws_payload forged0) = Some 4600 \<and> (4600::int) < 5000
   \<and> verifyToken cfg0 5000 (Jws forged0) = Inl (JsError ''Error'' ''Invalid authentication token'')
   \<and> verifyToken cfg0 5000 (Jws forged0) \<noteq> Inl (JsError ''Error'' ''Authentication token expired'')"
  by (simp add: forged0_def claims0_def verifyToken_def verifyToken_try_def cfg0_defaults
        truthy_def)

text \<open>
  C3, amended. With a secret configured, a token whose expiry is not after the time of
  verification is rejected as expired when it is signed with HS256 under the configured
  secret, whatever its issuer and audience, and as invalid when its algorithm or its
  signature is not the expected one.
\<close>

theorem verifyToken_expired:
  assumes "jwtSecret cfg = Some s" and "s \<noteq> []"
    and "exp (jws_payload j) = Some e" and "e \<le> now"
  shows "(jws_alg j = ''HS256'' \<and> jws_mac j = Some s \<longrightarrow>
            verifyToken cfg now (Jws j) = Inl (JsError ''Error'' ''Authentication token expired''))
       \<and> (jws_alg j \<noteq> ''HS256'' \<or> jws_mac j \<noteq> Some s \<longrightarrow>
            verifyToken cfg now (Jws j) = Inl (JsError ''Error'' ''Invalid authentication token''))"
  using assms by (auto simp add: verifyToken_def verifyToken_try_def truthy_def)

theorem verifyToken_expired_witness:
  "jwtSecret cfg0 = Some ''s3cret'' \<and> ''s3cret'' \<noteq> [] \<and> exp (jws_payload signed0) = Some 4600
   \<and> exp (jws_payload forged0) = Some 4600 \<and> (4600::int) \<le> 5000
   \<and> jws_alg signed0 = ''HS256'' \<and> jws_mac signed0 = Some ''s3cret''
   \<and> jws_mac forged0 \<noteq> Some ''s3cret''
   \<and> verifyToken cfg0 5000 (Jws signed0) = Inl (JsError ''Error'' ''Authentication token expired'')
   \<and> verifyToken cfg0 5000 (Jws forged0) = Inl (JsError ''Error'' ''Invalid authentication token'')"
proof -
  have h: "jwtSecret cfg0 = Some ''s3cret''" "''s3cret'' \<noteq> []"
      "exp (jws_payload signed0) = Some 4600" "exp (jws_payload forged0) = Some 4600"
      "(4600::int) \<le> 5000"
      "jws_alg signed0 = ''HS256''" "jws_mac signed0 = Some ''s3cret''"
      "jws_mac forged0 \<noteq> Some ''s3cret''"
    by (simp_all add: cfg0_defaults signed0_def forged0_def claims0_def)
  from verifyToken_expired [of cfg0 "''s3cret''" signed0 4600 5000]
       verifyToken_expired [of cfg0 "''s3cret''" forged0 4600 5000] h
  show ?thesis by simp
qed

lemma verifyToken_plain:
  "verifyToken cfg now (Plain s) =
     Inl (JsError ''Error'' (if s = [] then ''Authentication verification failed''
                             else ''Invalid authentication token''))"
  "verifyToken cfg now (Garbled s) = Inl (JsError ''Error'' ''Authentication verification failed'')"
  by (simp_all add: verifyToken_def verifyToken_try_def)

lemma verifyToken_Jws:
  "verifyToken cfg now (Jws j) =
     (if \<not> truthy (jwtSecret cfg) \<or> jws_alg j \<noteq> ''HS256'' \<or> jws_mac j \<noteq> jwtSecret cfg
      then Inl (JsError ''Error'' ''Invalid authentication token'')
      else if \<exists>x. exp (jws_payload j) = Some x \<and> x \<le> now
      then Inl (JsError ''Error'' ''Authentication token expired'')
      else if aud (jws_payload j) \<noteq> Some (default_audience cfg)
              \<or> iss (jws_payload j) \<noteq> Some (default_issuer cfg)
      then Inl (JsError ''Error'' ''Invalid authentication token'')
      else Inr (jws_payload j))"
  by (cases "exp (jws_payload j)") (auto simp add: verifyToken_def verifyToken_try_def)

text \<open>
  Reissue never succeeds on a credential that verification rejects: a string that is no
  token, a token with another algorithm or with a signature that is not valid under the
  configured secret, a token whose expiry is not after the current time, a token of
  another issuer or audience. Every one of them fails with the one fixed error of
  \<^verbatim>\<open>refreshToken\<close>.
\<close>

lemma refreshToken_rejects:
  assumes "(\<exists>s. t = Plain s \<or> t = Garbled s)
     \<or> (\<exists>j. t = Jws j
           \<and> (\<not> truthy (jwtSecret cfg) \<or> jws_alg j \<noteq> ''HS256'' \<or> jws_mac j \<noteq> jwtSecret cfg
               \<or> (\<exists>x. exp (jws_payload j) = Some x \<and> x \<le> now)
               \<or> aud (jws_payload j) \<noteq> Some (default_audience cfg)
               \<or> iss (jws_payload j) \<noteq> Some (default_issuer cfg)))"
  shows "refreshToken ms cfg now t newExpiry = Inl (JsError ''Error'' ''Failed to refresh token'')"
proof -
  from assms have "\<exists>e. verifyToken cfg now t = Inl e"
    by (auto simp add: verifyToken_plain verifyToken_Jws)
  then show ?thesis by (auto simp add: refreshToken_def)
qed


section \<open>The request context\<close>

text \<open>
  C10. The context function always returns a context. Its user is absent exactly when the
  bearer token is absent, or fails verification, or verifies with a subject id that is
  missing, empty or the id of no stored user; and in each of these cases the context is
  the very one built for the same request without an \<^verbatim>\<open>Authorization\<close> header.
\<close>

theorem build_context_anonymous:
  "(ctx_user (build_context cfg d clock uuid req) = None \<longleftrightarrow>
      bearer req = Plain [] \<or> (\<exists>e. verifyToken cfg clock (bearer req) = Inl e)
      \<or> (\<exists>decoded. verifyToken cfg clock (bearer req) = Inr decoded
            \<and> (\<not> truthy (userId decoded)
                \<or> user_findUnique d (the (userId decoded)) = None)))
   \<and> (ctx_user (build_context cfg d clock uuid req) = None \<longrightarrow>
        build_context cfg d clock uuid req
          = build_context cfg d clock uuid (req \<lparr> authorization := None \<rparr>))"
  by (cases "verifyToken cfg clock (bearer req)")
     (auto simp add: build_context_def resolve_user_def bearer_def)

theorem build_context_anonymous_witness:
  "verifyToken cfg0 2000 (bearer req0) = Inr claims0
   \<and> user_findUnique db_without_ann (the (userId claims0)) = None
   \<and> ctx_user (build_context cfg0 db_without_ann 2000 ''r-1'' req0) = None
   \<and> build_context cfg0 db_without_ann 2000 ''r-1'' req0
       = build_context cfg0 db_without_ann 2000 ''r-1'' (req0 \<lparr> authorization := None \<rparr>)
   \<and> bearer (req0 \<lparr> authorization := Some [Plain ''Bearer''] \<rparr>) = Plain []
   \<and> ctx_user (build_context cfg0 db1 2000 ''r-1''
                  (req0 \<lparr> authorization := Some [Plain ''Bearer''] \<rparr>)) = None"
proof -
  have h1: "verifyToken cfg0 2000 (bearer req0) = Inr claims0"
    by (simp add: req0_def bearer_def signed0_def claims0_def verifyToken_def verifyToken_try_def
          cfg0_defaults truthy_def)
  have h2: "user_findUnique db_without_ann (the (userId claims0)) = None"
    by (simp add: user_findUnique_def db_without_ann_def bob_def claims0_def)
  have h3: "bearer (req0 \<lparr> authorization := Some [Plain ''Bearer''] \<rparr>) = Plain []"
    by (simp add: bearer_def)
  note T = build_context_anonymous [of cfg0 db_without_ann 2000 "''r-1''" req0]
  from T h1 h2 have a: "ctx_user (build_context cfg0 db_without_ann 2000 ''r-1'' req0) = None"
    by blast
  from T h1 h2 have b: "build_context cfg0 db_without_ann 2000 ''r-1'' req0
            = build_context cfg0 db_without_ann 2000 ''r-1'' (req0 \<lparr> authorization := None \<rparr>)"
    by blast
  from build_context_anonymous [of cfg0 db1 2000 "''r-1''"
         "req0 \<lparr> authorization := Some [Plain ''Bearer''] \<rparr>"] h3
  have c: "ctx_user (build_context cfg0 db1 2000 ''r-1''
                  (req0 \<lparr> authorization := Some [Plain ''Bearer''] \<rparr>)) = None"
    by blast
  from a b c h1 h2 h3 show ?thesis by blast
qed

section \<open>Likes and ratings\<close>

lemma find_None_filter: "find P xs = None \<longleftrightarrow> filter P xs = []"
  by (induction xs) auto

lemma find_Some_filter: "find P xs = Some x \<Longrightarrow> \<exists>ys. filter P xs = x # ys"
  by (induction xs) (auto split: if_splits)

lemma find_Some_single:
  assumes "find P xs = Some x" and "length (filter P xs) \<le> 1"
  shows "filter P xs = [x]"
proof -
  from find_Some_filter [OF assms(1)] obtain ys where "filter P xs = x # ys" ..
  with assms(2) show ?thesis by simp
qed

lemma find_snoc: "find P (xs @ [x]) = (case find P xs of Some y \<Rightarrow> Some y | None \<Rightarrow> if P x then Some x else None)"
  by (induction xs) auto

lemma find_Some_holds: "find P xs = Some x \<Longrightarrow> P x \<and> x \<in> set xs"
  by (induction xs) (auto split: if_splits)

lemma find_map_comp: "find P (map f xs) = map_option f (find (\<lambda>x. P (f x)) xs)"
  by (induction xs) auto

lemma db1_lookups:
  "post_findUnique db1 ''p1'' = Some post0" "user_findUnique db1 ''u1'' = Some ann"
  "likes db1 = []" "ratings db1 = []" "comments db1 = []"
  by (simp_all add: db1_def post_findUnique_def user_findUnique_def post0_def ann_def)

lemma likePost_existing:
  assumes "post_findUnique d pid = Some p" and "like_findFirst d uid pid = Some l"
  shows "likePost d uuid now pid uid = Inr (l, d)"
  using assms by (simp add: likePost_def)

lemma likePost_result:
  assumes "likePost d uuid now pid uid = Inr (l, d1)"
    and "length (likes_of d uid pid) \<le> 1"
  shows "post_findUnique d1 pid \<noteq> None \<and> like_findFirst d1 uid pid = Some l
         \<and> likes_of d1 uid pid = [l]"
proof (cases "like_findFirst d uid pid")
  case None
  with assms(1) have "like_create d uuid now uid pid = Inr (l, d1)" and "post_findUnique d pid \<noteq> None"
    by (auto simp add: likePost_def split: option.splits)
  then have l: "l = \<lparr> like_id = uuid, like_userId = uid, like_postId = pid, like_createdAt = now \<rparr>"
    and d1: "d1 = d \<lparr> likes := likes d @ [l] \<rparr>" and p: "post_findUnique d pid \<noteq> None"
    by (auto simp add: like_create_def Let_def split: if_splits)
  from None have "likes_of d uid pid = []"
    by (simp add: like_findFirst_def likes_of_def find_None_filter)
  with None l d1 p show ?thesis
    by (simp add: like_findFirst_def likes_of_def find_snoc post_findUnique_def)
next
  case (Some l0)
  with assms(1) have "l = l0" "d1 = d" and p: "post_findUnique d pid \<noteq> None"
    by (auto simp add: likePost_def split: option.splits)
  with Some assms(2) show ?thesis
    by (simp add: like_findFirst_def likes_of_def find_Some_single)
qed

text \<open>
  C6. For an existing post and a store with at most one like for the pair: if a like
  exists for the user and the post, \<open>likePost\<close> returns it and leaves the store as it
  was; whatever like a successful call returns, a second call for the same pair returns
  the same like without touching the store, which then holds exactly that one like for
  the pair; and when no like exists, the first call succeeds for a stored user and a fresh
  identifier, by adding one row.
\<close>

theorem likePost_idempotent:
  assumes "post_findUnique d pid = Some p" and "length (likes_of d uid pid) \<le> 1"
  shows "(\<forall>l. like_findFirst d uid pid = Some l \<longrightarrow> likePost d uuid now pid uid = Inr (l, d))
       \<and> (\<forall>l d1. likePost d uuid now pid uid = Inr (l, d1) \<longrightarrow>
             likePost d1 uuid' now' pid uid = Inr (l, d1) \<and> likes_of d1 uid pid = [l])
       \<and> (like_findFirst d uid pid = None \<and> user_findUnique d uid \<noteq> None
            \<and> uuid \<notin> set (map like_id (likes d)) \<longrightarrow>
          likePost d uuid now pid uid =
            Inr (\<lparr> like_id = uuid, like_userId = uid, like_postId = pid, like_createdAt = now \<rparr>,
                 d \<lparr> likes := likes d @ [\<lparr> like_id = uuid, like_userId = uid, like_postId = pid,
                                           like_createdAt = now \<rparr>] \<rparr>))"
proof -
  have a: "likePost d uuid now pid uid = Inr (l, d)" if "like_findFirst d uid pid = Some l" for l
    using assms(1) that by (rule likePost_existing)
  have b: "likePost d1 uuid' now' pid uid = Inr (l, d1) \<and> likes_of d1 uid pid = [l]"
    if r: "likePost d uuid now pid uid = Inr (l, d1)" for l d1
  proof -
    from likePost_result [OF r assms(2)]
    obtain p1 where "post_findUnique d1 pid = Some p1" and "like_findFirst d1 uid pid = Some l"
      and one: "likes_of d1 uid pid = [l]" by auto
    then have "likePost d1 uuid' now' pid uid = Inr (l, d1)" by (simp add: likePost_existing)
    with one show ?thesis by simp
  qed
  have c: "likePost d uuid now pid uid =
            Inr (\<lparr> like_id = uuid, like_userId = uid, like_postId = pid, like_createdAt = now \<rparr>,
                 d \<lparr> likes := likes d @ [\<lparr> like_id = uuid, like_userId = uid, like_postId = pid,
                                           like_createdAt = now \<rparr>] \<rparr>)"
    if "like_findFirst d uid pid = None \<and> user_findUnique d uid \<noteq> None
            \<and> uuid \<notin> set (map like_id (likes d))"
    using assms(1) that
    by (auto simp add: likePost_def like_create_def Let_def)
  from a b c show ?thesis by blast
qed

theorem likePost_idempotent_witness:
  "post_findUnique db1 ''p1'' = Some post0 \<and> length (likes_of db1 ''u1'' ''p1'') \<le> 1
   \<and> like_findFirst db1 ''u1'' ''p1'' = None \<and> user_findUnique db1 ''u1'' \<noteq> None
   \<and> ''l-1'' \<notin> set (map like_id (likes db1))
   \<and> likePost db1 ''l-1'' 10 ''p1'' ''u1'' = Inr (like1, db1 \<lparr> likes := [like1] \<rparr>)
   \<and> like_findFirst (db1 \<lparr> likes := [like1] \<rparr>) ''u1'' ''p1'' = Some like1
   \<and> likePost (db1 \<lparr> likes := [like1] \<rparr>) ''l-2'' 20 ''p1'' ''u1''
       = Inr (like1, db1 \<lparr> likes := [like1] \<rparr>)
   \<and> likes_of (db1 \<lparr> likes := [like1] \<rparr>) ''u1'' ''p1'' = [like1]"
proof -
  have h: "post_findUnique db1 ''p1'' = Some post0" "length (likes_of db1 ''u1'' ''p1'') \<le> 1"
    "like_findFirst db1 ''u1'' ''p1'' = None" "user_findUnique db1 ''u1'' \<noteq> None"
    "''l-1'' \<notin> set (map like_id (likes db1))"
    by (simp_all add: db1_lookups likes_of_def like_findFirst_def)
  have k: "post_findUnique (db1 \<lparr> likes := [like1] \<rparr>) ''p1'' = Some post0"
    "length (likes_of (db1 \<lparr> likes := [like1] \<rparr>) ''u1'' ''p1'') \<le> 1"
    "like_findFirst (db1 \<lparr> likes := [like1] \<rparr>) ''u1'' ''p1'' = Some like1"
    by (simp_all add: db1_def post_findUnique_def post0_def likes_of_def like_findFirst_def
          like1_def)
  note T = likePost_idempotent [OF h(1) h(2), of "''l-1''" 10 "''l-2''" 20]
  from T h have first: "likePost db1 ''l-1'' 10 ''p1'' ''u1'' = Inr (like1, db1 \<lparr> likes := [like1] \<rparr>)"
    by (simp add: like1_def db1_lookups)
  with T have count: "likes_of (db1 \<lparr> likes := [like1] \<rparr>) ''u1'' ''p1'' = [like1]"
    by blast
  from likePost_idempotent [OF k(1) k(2), of "''l-2''" 20 "''l-3''" 30] k(3)
  have second: "likePost (db1 \<lparr> likes := [like1] \<rparr>) ''l-2'' 20 ''p1'' ''u1''
       = Inr (like1, db1 \<lparr> likes := [like1] \<rparr>)"
    by blast
  from h k first second count show ?thesis by blast
qed

lemma set_value_keys [simp]:
  "rating_userId (set_value v now r) = rating_userId r"
  "rating_postId (set_value v now r) = rating_postId r"
  "rating_id (set_value v now r) = rating_id r"
  "rating_value (set_value v now r) = v"
  by (simp_all add: set_value_def)

lemma map_update_by_id:
  assumes "distinct (map f xs)" and "r \<in> set xs"
  shows "map (\<lambda>x. if f x = f r then g x else x) xs = map (\<lambda>x. if x = r then g r else x) xs"
proof (rule map_cong [OF refl])
  fix x assume "x \<in> set xs"
  with assms have "f x = f r \<longleftrightarrow> x = r"
    by (auto simp add: distinct_map dest: inj_onD)
  then show "(if f x = f r then g x else x) = (if x = r then g r else x)" by auto
qed

lemma ratePost_update:
  fixes d :: db and now v :: int and r0 :: rating
  defines "d1 \<equiv> d \<lparr> ratings := map (\<lambda>x. if rating_id x = rating_id r0 then set_value v now x else x)
                                   (ratings d) \<rparr>"
  assumes range: "1 \<le> v" "v \<le> 5" and post: "post_findUnique d pid \<noteq> None"
    and found: "rating_findFirst d uid pid = Some r0"
    and one: "length (ratings_of d uid pid) \<le> 1"
    and ids: "distinct (map rating_id (ratings d))"
  shows "ratePost d uuid now pid uid v = Inr (set_value v now r0, d1)"
    and "ratings_of d1 uid pid = [set_value v now r0]"
    and "rating_findFirst d1 uid pid = Some (set_value v now r0)"
    and "post_findUnique d1 pid \<noteq> None"
    and "ratings d1 = map (\<lambda>x. if x = r0 then set_value v now r0 else x) (ratings d)"
    and "distinct (map rating_id (ratings d1))"
proof -
  let ?P = "\<lambda>r. rating_userId r = uid \<and> rating_postId r = pid"
  let ?upd = "\<lambda>x. if rating_id x = rating_id r0 then set_value v now x else x"
  have keep: "?P (?upd x) = ?P x" for x by simp
  from found have f: "find ?P (ratings d) = Some r0" by (simp add: rating_findFirst_def)
  from find_Some_holds [OF f] have mem: "r0 \<in> set (ratings d)" by simp
  from one f have single: "filter ?P (ratings d) = [r0]"
    by (simp add: ratings_of_def find_Some_single)
  have "filter ?P (map ?upd (ratings d)) = map ?upd (filter ?P (ratings d))"
    by (simp add: filter_map comp_def)
  with single show "ratings_of d1 uid pid = [set_value v now r0]"
    by (simp add: ratings_of_def d1_def)
  have "(\<lambda>x. ?P (?upd x)) = ?P" by (rule ext) simp
  then have "find ?P (map ?upd (ratings d)) = map_option ?upd (find ?P (ratings d))"
    by (simp only: find_map_comp)
  with f show "rating_findFirst d1 uid pid = Some (set_value v now r0)"
    by (simp add: rating_findFirst_def d1_def)
  show "post_findUnique d1 pid \<noteq> None" using post by (simp add: post_findUnique_def d1_def)
  show "ratings d1 = map (\<lambda>x. if x = r0 then set_value v now r0 else x) (ratings d)"
    using map_update_by_id [OF ids mem, of "set_value v now"] by (simp add: d1_def)
  have "rating_id \<circ> ?upd = rating_id" by (rule ext) simp
  with ids show "distinct (map rating_id (ratings d1))" by (simp add: d1_def)
  have "find (\<lambda>r. rating_id r = rating_id r0) (ratings d) = Some r0"
  proof (cases "find (\<lambda>r. rating_id r = rating_id r0) (ratings d)")
    case None
    with mem show ?thesis by (auto simp add: find_None_iff)
  next
    case (Some r1)
    from find_Some_holds [OF Some] have "rating_id r1 = rating_id r0" and "r1 \<in> set (ratings d)"
      by auto
    with ids mem have "r1 = r0" by (auto simp add: distinct_map dest: inj_onD)
    with Some show ?thesis by simp
  qed
  then have "rating_update d now (rating_id r0) v = Inr (set_value v now r0, d1)"
    by (simp add: rating_update_def d1_def)
  with range post found show "ratePost d uuid now pid uid v = Inr (set_value v now r0, d1)"
    by (auto simp add: ratePost_def)
qed

lemma ratePost_create:
  fixes d :: db and now v :: int and uuid uid pid :: string
  defines "r \<equiv> \<lparr> rating_id = uuid, rating_userId = uid, rating_postId = pid,
                   rating_value = v, rating_createdAt = now, rating_updatedAt = now \<rparr>"
  assumes range: "1 \<le> v" "v \<le> 5" and post: "post_findUnique d pid \<noteq> None"
    and none: "rating_findFirst d uid pid = None"
    and user: "user_findUnique d uid \<noteq> None"
    and fresh: "uuid \<notin> set (map rating_id (ratings d))"
  shows "ratePost d uuid now pid uid v = Inr (r, d \<lparr> ratings := ratings d @ [r] \<rparr>)"
    and "ratings_of (d \<lparr> ratings := ratings d @ [r] \<rparr>) uid pid = [r]"
proof -
  from range post none user fresh
  show "ratePost d uuid now pid uid v = Inr (r, d \<lparr> ratings := ratings d @ [r] \<rparr>)"
    by (auto simp add: ratePost_def rating_create_def r_def Let_def)
  from none have "filter (\<lambda>r. rating_userId r = uid \<and> rating_postId r = pid) (ratings d) = []"
    by (simp add: rating_findFirst_def find_None_filter)
  then show "ratings_of (d \<lparr> ratings := ratings d @ [r] \<rparr>) uid pid = [r]"
    by (simp add: ratings_of_def r_def)
qed

lemma ratePost_result:
  assumes r: "ratePost d uuid now pid uid v = Inr (r, d1)"
    and one: "length (ratings_of d uid pid) \<le> 1"
    and ids: "distinct (map rating_id (ratings d))"
  shows "post_findUnique d1 pid \<noteq> None \<and> rating_findFirst d1 uid pid = Some r
         \<and> ratings_of d1 uid pid = [r] \<and> rating_value r = v
         \<and> distinct (map rating_id (ratings d1))"
proof -
  from r have range: "1 \<le> v" "v \<le> 5" and post: "post_findUnique d pid \<noteq> None"
    by (auto simp add: ratePost_def split: if_splits option.splits)
  show ?thesis
  proof (cases "rating_findFirst d uid pid")
    case None
    with r range post have c: "rating_create d uuid now uid pid v = Inr (r, d1)"
      by (auto simp add: ratePost_def)
    then have user: "user_findUnique d uid \<noteq> None" and fresh: "uuid \<notin> set (map rating_id (ratings d))"
      by (auto simp add: rating_create_def split: if_splits)
    note cr = ratePost_create [OF range post None user fresh, of now]
    from cr(1) r have eq: "r = \<lparr> rating_id = uuid, rating_userId = uid, rating_postId = pid,
                   rating_value = v, rating_createdAt = now, rating_updatedAt = now \<rparr>"
      "d1 = d \<lparr> ratings := ratings d @ [r] \<rparr>" by auto
    from cr(2) eq have "ratings_of d1 uid pid = [r]" by simp
    moreover from None eq have "rating_findFirst d1 uid pid = Some r"
      by (simp add: rating_findFirst_def find_snoc)
    ultimately show ?thesis using eq post ids fresh
      by (auto simp add: post_findUnique_def)
  next
    case (Some r0)
    note up = ratePost_update [OF range post Some one ids]
    from up(1) [of uuid now] r
    have eq: "r = set_value v now r0"
      "d1 = d \<lparr> ratings := map (\<lambda>x. if rating_id x = rating_id r0 then set_value v now x
                                        else x) (ratings d) \<rparr>"
      by simp_all
    from up(2) [of now] up(3) [of now] up(4) [of now] up(6) [of now] eq
    show ?thesis by simp
  qed
qed

text \<open>
  C7. A value outside 1..5 fails with \<open>BAD_USER_INPUT\<close>; a value in range for a
  missing post fails with \<open>NOT_FOUND\<close>. For a value in range and an existing post, in
  a store that respects the primary key and the unique pair: an existing rating of the
  pair is updated in place (its value and its update time change, no other row does); when
  none exists, a stored user gets a new rating under the fresh identifier; either way the
  store then holds exactly one rating for the pair, with the submitted value; and a second
  submission overwrites the value of that same row, so that one rating with the latest
  value remains.
\<close>

theorem ratePost_upsert:
  "(v < 1 \<or> 5 < v \<longrightarrow>
      ratePost d uuid now pid uid v
        = Inl (GraphQLError ''Rating must be between 1 and 5'' (Some ''BAD_USER_INPUT'') None None))
   \<and> (1 \<le> v \<and> v \<le> 5 \<and> post_findUnique d pid = None \<longrightarrow>
      ratePost d uuid now pid uid v
        = Inl (GraphQLError ''Post not found'' (Some ''NOT_FOUND'') None None))
   \<and> (1 \<le> v \<and> v \<le> 5 \<and> post_findUnique d pid \<noteq> None
        \<and> length (ratings_of d uid pid) \<le> 1 \<and> distinct (map rating_id (ratings d)) \<longrightarrow>
      (\<forall>r0. rating_findFirst d uid pid = Some r0 \<longrightarrow>
         (\<exists>d1. ratePost d uuid now pid uid v = Inr (set_value v now r0, d1)
            \<and> d1 = d \<lparr> ratings := map (\<lambda>x. if x = r0 then set_value v now r0 else x)
                                      (ratings d) \<rparr>
            \<and> ratings_of d1 uid pid = [set_value v now r0]))
      \<and> (rating_findFirst d uid pid = None \<and> user_findUnique d uid \<noteq> None
            \<and> uuid \<notin> set (map rating_id (ratings d)) \<longrightarrow>
          (\<exists>r d1. ratePost d uuid now pid uid v = Inr (r, d1)
             \<and> r = \<lparr> rating_id = uuid, rating_userId = uid, rating_postId = pid,
                     rating_value = v, rating_createdAt = now, rating_updatedAt = now \<rparr>
             \<and> d1 = d \<lparr> ratings := ratings d @ [r] \<rparr>
             \<and> ratings_of d1 uid pid = [r]))
      \<and> (\<forall>r d1 v'. ratePost d uuid now pid uid v = Inr (r, d1) \<and> 1 \<le> v' \<and> v' \<le> 5 \<longrightarrow>
          (\<exists>d2. ratePost d1 uuid' now' pid uid v' = Inr (set_value v' now' r, d2)
             \<and> d2 = d1 \<lparr> ratings := map (\<lambda>x. if x = r then set_value v' now' r else x)
                                        (ratings d1) \<rparr>
             \<and> ratings_of d2 uid pid = [set_value v' now' r])))"
proof -
  have A: "ratePost d uuid now pid uid v
        = Inl (GraphQLError ''Rating must be between 1 and 5'' (Some ''BAD_USER_INPUT'') None None)"
    if "v < 1 \<or> 5 < v"
    using that by (auto simp add: ratePost_def bad_user_input_def BAD_USER_INPUT_def)
  have B: "ratePost d uuid now pid uid v
        = Inl (GraphQLError ''Post not found'' (Some ''NOT_FOUND'') None None)"
    if "1 \<le> v \<and> v \<le> 5 \<and> post_findUnique d pid = None"
    using that by (auto simp add: ratePost_def not_found_def NOT_FOUND_def)
  have U: "\<exists>d1. ratePost d uuid now pid uid v = Inr (set_value v now r0, d1)
            \<and> d1 = d \<lparr> ratings := map (\<lambda>x. if x = r0 then set_value v now r0 else x)
                                      (ratings d) \<rparr>
            \<and> ratings_of d1 uid pid = [set_value v now r0]"
    if h: "1 \<le> v" "v \<le> 5" "post_findUnique d pid \<noteq> None"
      "rating_findFirst d uid pid = Some r0"
      "length (ratings_of d uid pid) \<le> 1" "distinct (map rating_id (ratings d))"
    for d uuid now v r0
  proof -
    note up = ratePost_update [OF h]
    from up(5) [of now]
    have "d \<lparr> ratings := map (\<lambda>x. if rating_id x = rating_id r0 then set_value v now x else x)
                              (ratings d) \<rparr>
          = d \<lparr> ratings := map (\<lambda>x. if x = r0 then set_value v now r0 else x) (ratings d) \<rparr>"
      by simp
    with up(1) [of uuid now] up(2) [of now] show ?thesis by simp
  qed
  have C1: "\<exists>d1. ratePost d uuid now pid uid v = Inr (set_value v now r0, d1)
            \<and> d1 = d \<lparr> ratings := map (\<lambda>x. if x = r0 then set_value v now r0 else x)
                                      (ratings d) \<rparr>
            \<and> ratings_of d1 uid pid = [set_value v now r0]"
    if "1 \<le> v \<and> v \<le> 5 \<and> post_findUnique d pid \<noteq> None
        \<and> length (ratings_of d uid pid) \<le> 1 \<and> distinct (map rating_id (ratings d))"
      and "rating_findFirst d uid pid = Some r0" for r0
    using that by (intro U) simp_all
  have C2: "\<exists>r d1. ratePost d uuid now pid uid v = Inr (r, d1)
             \<and> r = \<lparr> rating_id = uuid, rating_userId = uid, rating_postId = pid,
                     rating_value = v, rating_createdAt = now, rating_updatedAt = now \<rparr>
             \<and> d1 = d \<lparr> ratings := ratings d @ [r] \<rparr>
             \<and> ratings_of d1 uid pid = [r]"
    if "1 \<le> v \<and> v \<le> 5 \<and> post_findUnique d pid \<noteq> None
        \<and> length (ratings_of d uid pid) \<le> 1 \<and> distinct (map rating_id (ratings d))"
      and "rating_findFirst d uid pid = None \<and> user_findUnique d uid \<noteq> None
            \<and> uuid \<notin> set (map rating_id (ratings d))"
  proof -
    from that have h: "1 \<le> v" "v \<le> 5" "post_findUnique d pid \<noteq> None"
      "rating_findFirst d uid pid = None" "user_findUnique d uid \<noteq> None"
      "uuid \<notin> set (map rating_id (ratings d))" by simp_all
    from ratePost_create [OF h, of now] show ?thesis by simp
  qed
  have C3: "\<exists>d2. ratePost d1 uuid' now' pid uid v' = Inr (set_value v' now' r, d2)
             \<and> d2 = d1 \<lparr> ratings := map (\<lambda>x. if x = r then set_value v' now' r else x)
                                        (ratings d1) \<rparr>
             \<and> ratings_of d2 uid pid = [set_value v' now' r]"
    if "1 \<le> v \<and> v \<le> 5 \<and> post_findUnique d pid \<noteq> None
        \<and> length (ratings_of d uid pid) \<le> 1 \<and> distinct (map rating_id (ratings d))"
      and "ratePost d uuid now pid uid v = Inr (r, d1) \<and> 1 \<le> v' \<and> v' \<le> 5" for r d1 v'
  proof -
    from that have r: "ratePost d uuid now pid uid v = Inr (r, d1)"
      and one: "length (ratings_of d uid pid) \<le> 1"
      and ids: "distinct (map rating_id (ratings d))" and v': "1 \<le> v'" "v' \<le> 5" by simp_all
    from ratePost_result [OF r one ids] v' show ?thesis by (intro U) simp_all
  qed
  from A B C1 C2 C3 show ?thesis by blast
qed

theorem ratePost_upsert_witness:
  "(1::int) \<le> 3 \<and> (3::int) \<le> 5 \<and> post_findUnique db1 ''p1'' \<noteq> None
   \<and> length (ratings_of db1 ''u1'' ''p1'') \<le> 1 \<and> distinct (map rating_id (ratings db1))
   \<and> rating_findFirst db1 ''u1'' ''p1'' = None \<and> user_findUnique db1 ''u1'' \<noteq> None
   \<and> ''r-1'' \<notin> set (map rating_id (ratings db1)) \<and> (1::int) \<le> 5 \<and> (5::int) \<le> 5
   \<and> ratePost db1 ''r-1'' 10 ''p1'' ''u1'' 3 = Inr (rating3, db1 \<lparr> ratings := [rating3] \<rparr>)
   \<and> ratePost (db1 \<lparr> ratings := [rating3] \<rparr>) ''r-2'' 20 ''p1'' ''u1'' 5
       = Inr (rating5, db1 \<lparr> ratings := [rating5] \<rparr>)
   \<and> ratings_of (db1 \<lparr> ratings := [rating5] \<rparr>) ''u1'' ''p1'' = [rating5]
   \<and> rating_value rating5 = 5
   \<and> ratePost db1 ''r-1'' 10 ''p1'' ''u1'' 6
       = Inl (GraphQLError ''Rating must be between 1 and 5'' (Some ''BAD_USER_INPUT'') None None)
   \<and> ratePost db1 ''r-1'' 10 ''p9'' ''u1'' 3
       = Inl (GraphQLError ''Post not found'' (Some ''NOT_FOUND'') None None)"
proof -
  have h: "(1::int) \<le> 3 \<and> (3::int) \<le> 5 \<and> post_findUnique db1 ''p1'' \<noteq> None
      \<and> length (ratings_of db1 ''u1'' ''p1'') \<le> 1 \<and> distinct (map rating_id (ratings db1))"
    "rating_findFirst db1 ''u1'' ''p1'' = None \<and> user_findUnique db1 ''u1'' \<noteq> None
      \<and> ''r-1'' \<notin> set (map rating_id (ratings db1))"
    by (simp_all add: db1_lookups ratings_of_def rating_findFirst_def)
  have s5: "set_value 5 20 rating3 = rating5" by (simp add: set_value_def rating3_def rating5_def)
  note T = ratePost_upsert [of 3 db1 "''r-1''" 10 "''p1''" "''u1''" "''r-2''" 20]
  from T h have first: "ratePost db1 ''r-1'' 10 ''p1'' ''u1'' 3 = Inr (rating3, db1 \<lparr> ratings := [rating3] \<rparr>)"
    by (simp add: rating3_def db1_lookups)
  with T h have "\<exists>d2. ratePost (db1 \<lparr> ratings := [rating3] \<rparr>) ''r-2'' 20 ''p1'' ''u1'' 5
                   = Inr (set_value 5 20 rating3, d2)
             \<and> d2 = db1 \<lparr> ratings := [rating3] \<rparr>
                  \<lparr> ratings := map (\<lambda>x. if x = rating3 then set_value 5 20 rating3 else x)
                                        (ratings (db1 \<lparr> ratings := [rating3] \<rparr>)) \<rparr>
             \<and> ratings_of d2 ''u1'' ''p1'' = [set_value 5 20 rating3]"
    by (simp add: db1_lookups)
  then have second: "ratePost (db1 \<lparr> ratings := [rating3] \<rparr>) ''r-2'' 20 ''p1'' ''u1'' 5
       = Inr (rating5, db1 \<lparr> ratings := [rating5] \<rparr>)
     \<and> ratings_of (db1 \<lparr> ratings := [rating5] \<rparr>) ''u1'' ''p1'' = [rating5]"
    by (simp add: s5)
  have e1: "ratePost db1 ''r-1'' 10 ''p1'' ''u1'' 6
       = Inl (GraphQLError ''Rating must be between 1 and 5'' (Some ''BAD_USER_INPUT'') None None)"
    using ratePost_upsert [of 6 db1 "''r-1''" 10 "''p1''" "''u1''" "''r-2''" 20] by simp
  have e2: "ratePost db1 ''r-1'' 10 ''p9'' ''u1'' 3
       = Inl (GraphQLError ''Post not found'' (Some ''NOT_FOUND'') None None)"
    using ratePost_upsert [of 3 db1 "''r-1''" 10 "''p9''" "''u1''" "''r-2''" 20]
    by (simp add: db1_def post_findUnique_def post0_def)
  have v: "rating_value rating5 = 5" by (simp add: rating5_def)
  from h first second e1 e2 v show ?thesis by simp
qed

section \<open>Comments\<close>

text \<open>
  C8. The claim fails for a parent id that is the empty string. The string is falsy, so the
  parent is not looked up although no comment has this id; the row is sent to the store
  with the empty parent id, and the store rejects it for the foreign key of the relation.
  The outcome is a persistence error, not \<open>NOT_FOUND\<close>.
\<close>

theorem createComment_empty_parentId:
  "post_findUnique db1 ''p1'' = Some post0 \<and> user_findUnique db1 ''u1'' = Some ann
   \<and> comment_findUnique db1 [] = None
   \<and> createComment db1 ''c-1'' 10
        \<lparr> input_postId = ''p1'', input_content = ''hello'', input_parentId = Some [] \<rparr> ''u1''
       = Inl (JsError ''PrismaClientKnownRequestError''
                ''Foreign key constraint failed on the field: parentId'')"
  by (simp add: db1_lookups createComment_def check_parent_def truthy_def comment_create_def
        comment_findUnique_def prisma_error_def)

text \<open>
  For every other request the checks are the ones of the specification: a missing post and
  a missing parent fail with \<open>NOT_FOUND\<close>, a parent of another post fails with
  \<open>BAD_USER_INPUT\<close>, and otherwise a stored user's comment is created, under a fresh
  identifier, with the parent id as given.
\<close>

lemma createComment_checks:
  "(post_findUnique d (input_postId inp) = None \<longrightarrow>
      createComment d uuid now inp uid
        = Inl (GraphQLError ''Post not found'' (Some ''NOT_FOUND'') None None))
   \<and> (post_findUnique d (input_postId inp) \<noteq> None \<and> input_parentId inp = Some pid
        \<and> pid \<noteq> [] \<longrightarrow>
        (comment_findUnique d pid = None \<longrightarrow>
           createComment d uuid now inp uid
             = Inl (GraphQLError ''Parent comment not found'' (Some ''NOT_FOUND'') None None))
        \<and> (\<forall>parent. comment_findUnique d pid = Some parent
              \<and> comment_postId parent \<noteq> input_postId inp \<longrightarrow>
           createComment d uuid now inp uid
             = Inl (GraphQLError ''Parent comment does not belong to this post''
                      (Some ''BAD_USER_INPUT'') None None)))
   \<and> (post_findUnique d (input_postId inp) \<noteq> None
        \<and> (input_parentId inp = None
            \<or> (\<exists>pid parent. input_parentId inp = Some pid \<and> pid \<noteq> []
                  \<and> comment_findUnique d pid = Some parent
                  \<and> comment_postId parent = input_postId inp))
        \<and> user_findUnique d uid \<noteq> None \<and> uuid \<notin> set (map comment_id (comments d)) \<longrightarrow>
        (\<exists>c. createComment d uuid now inp uid = Inr (c, d \<lparr> comments := comments d @ [c] \<rparr>)
           \<and> c = \<lparr> comment_id = uuid, comment_userId = uid, comment_postId = input_postId inp,
                   comment_content = input_content inp, comment_parentId = input_parentId inp,
                   comment_createdAt = now, comment_updatedAt = now \<rparr>))"
  by (auto simp add: createComment_def check_parent_def truthy_def comment_create_def
        not_found_def bad_user_input_def NOT_FOUND_def BAD_USER_INPUT_def Let_def)

lemma filter_out_one:
  assumes "distinct (map f xs)" and "x \<in> set xs"
  shows "length (filter (\<lambda>y. f y \<noteq> f x) xs) + 1 = length xs"
  using assms
proof (induction xs)
  case Nil
  then show ?case by simp
next
  case (Cons a xs)
  show ?case
  proof (cases "a = x")
    case True
    with Cons.prems have "\<forall>y\<in>set xs. f y \<noteq> f x" by (auto simp add: image_iff)
    then have "filter (\<lambda>y. f y \<noteq> f x) xs = xs" by (simp add: filter_id_conv)
    with True show ?thesis by simp
  next
    case False
    with Cons.prems have "x \<in> set xs" and "f a \<noteq> f x" and "distinct (map f xs)" by auto
    with Cons.IH show ?thesis by simp
  qed
qed

text \<open>
  C9. When the owner of a comment or an administrator deletes it, the call succeeds and
  the comments of the store afterwards are the former ones without the deleted row, in
  the same order, each reply to the deleted comment with its parent id cleared and every
  other field as before, every other comment unchanged; no other table changes. With
  unique identifiers exactly one row is gone, so no reply and no deeper descendant is
  deleted.
\<close>

theorem deleteComment_orphans_replies:
  assumes "comment_findUnique d i = Some c"
    and "uid = comment_userId c \<or> userRole = ''ADMIN''"
  shows "\<exists>d'. deleteComment d i uid userRole = Inr (True, d')
           \<and> d' = d \<lparr> comments :=
                        map (\<lambda>x. if comment_parentId x = Some i
                                  then x \<lparr> comment_parentId := None \<rparr> else x)
                          (filter (\<lambda>x. comment_id x \<noteq> i) (comments d)) \<rparr>
           \<and> (\<forall>x \<in> set (comments d). comment_id x \<noteq> i \<longrightarrow>
                 (if comment_parentId x = Some i then x \<lparr> comment_parentId := None \<rparr> else x)
                   \<in> set (comments d'))
           \<and> map comment_id (comments d') = filter (\<lambda>j. j \<noteq> i) (map comment_id (comments d))
           \<and> (distinct (map comment_id (comments d)) \<longrightarrow>
                 length (comments d') + 1 = length (comments d))"
proof -
  let ?clear = "\<lambda>x. if comment_parentId x = Some i then x \<lparr> comment_parentId := None \<rparr> else x"
  let ?d' = "d \<lparr> comments := map ?clear (filter (\<lambda>x. comment_id x \<noteq> i) (comments d)) \<rparr>"
  have clear: "orphan i = ?clear" by (rule ext) (simp add: orphan_def)
  from assms have run: "deleteComment d i uid userRole = Inr (True, ?d')"
    by (auto simp add: deleteComment_def authorize_def comment_delete_def clear)
  have mem: "\<forall>x \<in> set (comments d). comment_id x \<noteq> i \<longrightarrow> ?clear x \<in> set (comments ?d')"
    by auto
  have "comment_id \<circ> ?clear = comment_id" by (rule ext) simp
  then have ids: "map comment_id (comments ?d')
                    = filter (\<lambda>j. j \<noteq> i) (map comment_id (comments d))"
    by (simp add: filter_map comp_def)
  from assms(1) have c: "c \<in> set (comments d)" and ci: "comment_id c = i"
    using find_Some_holds [of "\<lambda>c. comment_id c = i" "comments d" c]
    by (simp_all add: comment_findUnique_def)
  have len: "length (comments ?d') + 1 = length (comments d)"
    if "distinct (map comment_id (comments d))"
    using filter_out_one [OF that c] ci by simp
  from run mem ids len show ?thesis by blast
qed

theorem deleteComment_orphans_replies_witness:
  "comment_findUnique db_thread ''c1'' = Some c1
   \<and> (''u1'' = comment_userId c1 \<or> ''USER'' = ''ADMIN'')
   \<and> distinct (map comment_id (comments db_thread))
   \<and> deleteComment db_thread ''c1'' ''u1'' ''USER''
       = Inr (True, db_thread \<lparr> comments := [c2 \<lparr> comment_parentId := None \<rparr>, c3, c4] \<rparr>)"
proof -
  have h: "comment_findUnique db_thread ''c1'' = Some c1"
    "''u1'' = comment_userId c1 \<or> ''USER'' = ''ADMIN''"
    "distinct (map comment_id (comments db_thread))"
    by (simp_all add: comment_findUnique_def db_thread_def c1_def c2_def c3_def c4_def)
  have l: "comments db_thread = [c1, c2, c3, c4]" by (simp add: db_thread_def)
  have f: "comment_id c1 = ''c1''" "comment_id c2 = ''c2''" "comment_id c3 = ''c3''"
    "comment_id c4 = ''c4''" "comment_parentId c2 = Some ''c1''" "comment_parentId c3 = None"
    "comment_parentId c4 = Some ''c2''"
    by (simp_all add: c1_def c2_def c3_def c4_def)
  from deleteComment_orphans_replies [OF h(1) h(2)]
  have "deleteComment db_thread ''c1'' ''u1'' ''USER''
       = Inr (True, db_thread \<lparr> comments := [c2 \<lparr> comment_parentId := None \<rparr>, c3, c4] \<rparr>)"
    by (simp add: l f)
  with h show ?thesis by blast
qed

end
